theory Spec2Isabelle
  imports Complex_Main "HOL-Library.Multiset"
begin

section \<open>Numbers and errors\<close>

text \<open>
  A Python exception is a value of \<open>error\<close>; a function that can raise returns
  \<open>error + 'a\<close> with \<open>Inl\<close> for the exception.
\<close>

datatype error = ValueError | KeyError | TypeError | AttributeError | ZeroDivisionError

text \<open>
  The value of a float: a real, an infinity or NaN. Finite results are exact: rounding
  and overflow are outside the model, and the sign of a zero is not kept (every zero is
  +0.0).
\<close>

datatype float64 = Finite real | PosInf | NegInf | NaN

text \<open>The infinity with the sign of \<open>x\<close>; NaN for zero.\<close>

definition signed_inf :: "real \<Rightarrow> float64" where
  "signed_inf x = (if x = 0 then NaN else if 0 < x then PosInf else NegInf)"

fun f_neg :: "float64 \<Rightarrow> float64" where
  "f_neg (Finite x) = Finite (- x)"
| "f_neg PosInf = NegInf"
| "f_neg NegInf = PosInf"
| "f_neg NaN = NaN"

fun f_add :: "float64 \<Rightarrow> float64 \<Rightarrow> float64" where
  "f_add (Finite x) (Finite y) = Finite (x + y)"
| "f_add NaN b = NaN"
| "f_add a NaN = NaN"
| "f_add PosInf NegInf = NaN"
| "f_add NegInf PosInf = NaN"
| "f_add PosInf b = PosInf"
| "f_add NegInf b = NegInf"
| "f_add a PosInf = PosInf"
| "f_add a NegInf = NegInf"

definition f_sub :: "float64 \<Rightarrow> float64 \<Rightarrow> float64" where
  "f_sub a b = f_add a (f_neg b)"

fun f_mul :: "float64 \<Rightarrow> float64 \<Rightarrow> float64" where
  "f_mul (Finite x) (Finite y) = Finite (x * y)"
| "f_mul NaN b = NaN"
| "f_mul a NaN = NaN"
| "f_mul (Finite x) PosInf = signed_inf x"
| "f_mul (Finite x) NegInf = signed_inf (- x)"
| "f_mul PosInf (Finite y) = signed_inf y"
| "f_mul NegInf (Finite y) = signed_inf (- y)"
| "f_mul PosInf PosInf = PosInf"
| "f_mul NegInf NegInf = PosInf"
| "f_mul PosInf NegInf = NegInf"
| "f_mul NegInf PosInf = NegInf"

text \<open>
  Division as the hardware does it, a zero divisor included: \<open>0/0\<close> is NaN and \<open>x/0\<close>
  the infinity with the sign of \<open>x\<close>.
\<close>

fun f_div :: "float64 \<Rightarrow> float64 \<Rightarrow> float64" where
  "f_div (Finite x) (Finite y) = (if y \<noteq> 0 then Finite (x / y) else signed_inf x)"
| "f_div NaN b = NaN"
| "f_div a NaN = NaN"
| "f_div (Finite x) b = Finite 0"
| "f_div PosInf (Finite y) = (if 0 \<le> y then PosInf else NegInf)"
| "f_div NegInf (Finite y) = (if 0 \<le> y then NegInf else PosInf)"
| "f_div a b = NaN"

text \<open>\<^verbatim>\<open>a < b\<close>: false when either side is NaN.\<close>

fun f_less :: "float64 \<Rightarrow> float64 \<Rightarrow> bool" where
  "f_less (Finite x) (Finite y) = (x < y)"
| "f_less NaN b = False"
| "f_less a NaN = False"
| "f_less a NegInf = False"
| "f_less PosInf b = False"
| "f_less a b = True"

text \<open>
  A number is a Python number (an int or a float) or a numpy float64 scalar. They
  compute alike, and an operation with a numpy operand gives a numpy result, but they
  part on a zero divisor: between Python numbers \<^verbatim>\<open>a / b\<close> raises ZeroDivisionError,
  with a numpy operand it gives NaN or an infinity (and a warning).
\<close>

datatype num = Py float64 | Np float64

fun fval :: "num \<Rightarrow> float64" where
  "fval (Py x) = x"
| "fval (Np x) = x"

fun is_np :: "num \<Rightarrow> bool" where
  "is_np (Py x) = False"
| "is_np (Np x) = True"

definition result_of :: "num \<Rightarrow> num \<Rightarrow> float64 \<Rightarrow> num" where
  "result_of a b x = (if is_np a \<or> is_np b then Np x else Py x)"

definition num_mul :: "num \<Rightarrow> num \<Rightarrow> num" where
  "num_mul a b = result_of a b (f_mul (fval a) (fval b))"

definition num_sub :: "num \<Rightarrow> num \<Rightarrow> num" where
  "num_sub a b = result_of a b (f_sub (fval a) (fval b))"

definition num_truediv :: "num \<Rightarrow> num \<Rightarrow> error + num" where
  "num_truediv a b =
     (if \<not> is_np a \<and> \<not> is_np b \<and> fval b = Finite 0 then Inl ZeroDivisionError
      else Inr (result_of a b (f_div (fval a) (fval b))))"

text \<open>A Python literal.\<close>

definition py :: "real \<Rightarrow> num" where
  "py x = Py (Finite x)"

text \<open>
  \<^verbatim>\<open>x or d\<close> for an optional number \<open>x\<close>: \<^verbatim>\<open>None\<close> and zero (of either kind) are
  falsy, so either one selects \<open>d\<close>.
\<close>

definition py_or :: "num option \<Rightarrow> num \<Rightarrow> num" where
  "py_or x d = (case x of None \<Rightarrow> d | Some v \<Rightarrow> if fval v = Finite 0 then d else v)"

section \<open>Liquidation calculator (src/models/liquidation\_calculator.py)\<close>

text \<open>
  The object's attributes are a record. A method takes its arguments and the object and
  returns its result together with the object as the call leaves it; an exception leaves
  the object as it was when raised. The attributes are numbers of either kind: the
  module's own example passes Python numbers, \<^verbatim>\<open>analyze.py\<close> and the dashboard pass the
  numpy float64 \<^verbatim>\<open>total_notional\<close> as the debt.
\<close>

record LiquidationCalculator =
  btc_holdings :: num
  btc_price :: num
  total_debt :: num
  annual_interest :: num

definition init_LiquidationCalculator ::
  "num \<Rightarrow> num \<Rightarrow> num \<Rightarrow> num \<Rightarrow> LiquidationCalculator" where
  "init_LiquidationCalculator holdings price debt interest =
     \<lparr>btc_holdings = holdings, btc_price = price,
      total_debt = num_mul debt (py 1000000),
      annual_interest = num_mul interest (py 1000000)\<rparr>"

definition calculate_btc_value ::
  "num option \<Rightarrow> LiquidationCalculator \<Rightarrow> num \<times> LiquidationCalculator" where
  "calculate_btc_value price_arg self =
     (let price = py_or price_arg (btc_price self)
      in (num_mul (btc_holdings self) price, self))"

definition calculate_ltv_ratio ::
  "num option \<Rightarrow> LiquidationCalculator \<Rightarrow> (error + num) \<times> LiquidationCalculator" where
  "calculate_ltv_ratio price_arg self =
     (case calculate_btc_value price_arg self of
        (btc_value, self1) \<Rightarrow> (num_truediv (total_debt self1) btc_value, self1))"

definition calculate_collateral_coverage ::
  "num option \<Rightarrow> LiquidationCalculator \<Rightarrow> (error + num) \<times> LiquidationCalculator" where
  "calculate_collateral_coverage price_arg self =
     (case calculate_ltv_ratio price_arg self of
        (Inl e, self1) \<Rightarrow> (Inl e, self1)
      | (Inr ltv, self1) \<Rightarrow> (num_truediv (py 1) ltv, self1))"

definition calculate_liquidation_price ::
  "num \<Rightarrow> LiquidationCalculator \<Rightarrow> (error + num) \<times> LiquidationCalculator" where
  "calculate_liquidation_price target self =
     (num_truediv (total_debt self) (num_mul (btc_holdings self) target), self)"

record margin_of_safety =
  current_price :: num
  liquidation_price :: num
  price_drop_dollars :: num
  price_drop_percent :: num
  current_ltv :: num
  target_ltv :: num

definition calculate_margin_of_safety ::
  "num \<Rightarrow> LiquidationCalculator \<Rightarrow> (error + margin_of_safety) \<times> LiquidationCalculator" where
  "calculate_margin_of_safety target self =
     (case calculate_liquidation_price target self of
        (Inl e, self1) \<Rightarrow> (Inl e, self1)
      | (Inr liq_price, self1) \<Rightarrow>
          (let price_drop = num_sub (btc_price self1) liq_price
           in case num_truediv price_drop (btc_price self1) of
                Inl e \<Rightarrow> (Inl e, self1)
              | Inr q \<Rightarrow>
                  (let pct_drop = num_mul q (py 100)
                   in case calculate_ltv_ratio None self1 of
                        (Inl e, self2) \<Rightarrow> (Inl e, self2)
                      | (Inr ltv, self2) \<Rightarrow>
                          (Inr \<lparr>current_price = btc_price self1,
                                liquidation_price = liq_price,
                                price_drop_dollars = price_drop,
                                price_drop_percent = pct_drop,
                                current_ltv = ltv,
                                target_ltv = target\<rparr>, self2))))"

text \<open>
  \<^verbatim>\<open>float('inf')\<close> for no interest; otherwise a division whose divisor is not zero.
\<close>

definition calculate_interest_coverage ::
  "num \<Rightarrow> LiquidationCalculator \<Rightarrow> (error + num) \<times> LiquidationCalculator" where
  "calculate_interest_coverage operating_income_annual self =
     (if fval (annual_interest self) = Finite 0 then (Inr (Py PosInf), self)
      else (num_truediv (num_mul operating_income_annual (py 1000000))
                        (annual_interest self), self))"

datatype status = Safe | Caution | Warning | Danger

definition get_status :: "num \<Rightarrow> status" where
  "get_status ltv =
     (if f_less (fval ltv) (Finite 0.50) then Safe
      else if f_less (fval ltv) (Finite 0.65) then Caution
      else if f_less (fval ltv) (Finite 0.85) then Warning
      else Danger)"

record scenario_row =
  Scenario :: string
  BTC_Price :: num
  BTC_Holdings_Value :: num
  LTV_Ratio :: num
  Collateral_Coverage :: num
  Status :: status

text \<open>
  The loop of \<^verbatim>\<open>stress_test_scenarios\<close> over its (name, price) pairs. The source
  formats each number into a string for display; the rows here keep the numbers.
\<close>

fun stress_rows ::
  "(string \<times> num) list \<Rightarrow> LiquidationCalculator
   \<Rightarrow> (error + scenario_row list) \<times> LiquidationCalculator" where
  "stress_rows [] self = (Inr [], self)"
| "stress_rows ((name, price) # rest) self =
     (case calculate_ltv_ratio (Some price) self of
        (Inl e, self1) \<Rightarrow> (Inl e, self1)
      | (Inr ltv, self1) \<Rightarrow>
          (case calculate_collateral_coverage (Some price) self1 of
             (Inl e, self2) \<Rightarrow> (Inl e, self2)
           | (Inr collateral_cov, self2) \<Rightarrow>
               (case calculate_btc_value (Some price) self2 of
                  (btc_value, self3) \<Rightarrow>
                    (case num_truediv btc_value (py 1000000) of
                       Inl e \<Rightarrow> (Inl e, self3)
                     | Inr btc_value_m \<Rightarrow>
                         (case stress_rows rest self3 of
                            (Inl e, self4) \<Rightarrow> (Inl e, self4)
                          | (Inr results, self4) \<Rightarrow>
                              (Inr (\<lparr>Scenario = name, BTC_Price = price,
                                      BTC_Holdings_Value = btc_value_m,
                                      LTV_Ratio = ltv,
                                      Collateral_Coverage = collateral_cov,
                                      Status = get_status ltv\<rparr> # results), self4))))))"

definition stress_test_scenarios ::
  "LiquidationCalculator \<Rightarrow> (error + scenario_row list) \<times> LiquidationCalculator" where
  "stress_test_scenarios self =
     (let current = btc_price self;
          scenarios =
            [(''Current'', current),
             (''-20%'', num_mul current (py 0.8)),
             (''-30%'', num_mul current (py 0.7)),
             (''-40%'', num_mul current (py 0.6)),
             (''-50%'', num_mul current (py 0.5)),
             (''-60%'', num_mul current (py 0.4)),
             (''-70%'', num_mul current (py 0.3))]
      in stress_rows scenarios self)"

section \<open>LTV heatmap (src/visualizations/charts.py)\<close>

text \<open>
  \<^verbatim>\<open>np.linspace(start, stop, num)\<close>: \<open>num\<close> evenly spaced points, both ends included,
  each a numpy float64.
\<close>

definition linspace :: "real \<Rightarrow> real \<Rightarrow> nat \<Rightarrow> num list" where
  "linspace start stop n =
     (if n = 1 then [Np (Finite start)]
      else map (\<lambda>i. Np (Finite (start + real i * ((stop - start) / real (n - 1))))) [0..<n])"

text \<open>
  The inner loop (over prices) and the outer loop (over debt multipliers). An exception
  in a cell would leave the loops at once, the calculator as it then is.
\<close>

fun heatmap_cells ::
  "num \<Rightarrow> num \<Rightarrow> num list \<Rightarrow> LiquidationCalculator
   \<Rightarrow> (error + num list) \<times> LiquidationCalculator" where
  "heatmap_cells original_debt debt_mult [] calc = (Inr [], calc)"
| "heatmap_cells original_debt debt_mult (price # prices) calc =
     (let calc1 = calc\<lparr>total_debt := num_mul original_debt debt_mult\<rparr>
      in case calculate_ltv_ratio (Some price) calc1 of
           (Inl e, calc2) \<Rightarrow> (Inl e, calc2)
         | (Inr ltv, calc2) \<Rightarrow>
             (case heatmap_cells original_debt debt_mult prices calc2 of
                (Inl e, calc3) \<Rightarrow> (Inl e, calc3)
              | (Inr cells, calc3) \<Rightarrow> (Inr (num_mul ltv (py 100) # cells), calc3)))"

fun heatmap_sweep ::
  "num \<Rightarrow> num list \<Rightarrow> num list \<Rightarrow> LiquidationCalculator
   \<Rightarrow> (error + num list list) \<times> LiquidationCalculator" where
  "heatmap_sweep original_debt [] btc_prices calc = (Inr [], calc)"
| "heatmap_sweep original_debt (debt_mult # mults) btc_prices calc =
     (case heatmap_cells original_debt debt_mult btc_prices calc of
        (Inl e, calc1) \<Rightarrow> (Inl e, calc1)
      | (Inr cells, calc1) \<Rightarrow>
          (case heatmap_sweep original_debt mults btc_prices calc1 of
             (Inl e, calc2) \<Rightarrow> (Inl e, calc2)
           | (Inr rows, calc2) \<Rightarrow> (Inr (cells # rows), calc2)))"

text \<open>
  \<^verbatim>\<open>create_ltv_heatmap\<close> up to the reset of the debt: the matrix it plots and the
  calculator as the call leaves it. The reset is not reached when the sweep raises.
\<close>

definition create_ltv_heatmap ::
  "LiquidationCalculator \<Rightarrow> real \<times> real \<Rightarrow> real \<times> real
   \<Rightarrow> (error + num list list) \<times> LiquidationCalculator" where
  "create_ltv_heatmap calc btc_price_range debt_range =
     (let btc_prices = linspace (fst btc_price_range) (snd btc_price_range) 20;
          debt_multipliers = linspace (fst debt_range) (snd debt_range) 15;
          original_debt = total_debt calc
      in case heatmap_sweep original_debt debt_multipliers btc_prices calc of
           (Inl e, calc1) \<Rightarrow> (Inl e, calc1)
         | (Inr ltv_matrix, calc1) \<Rightarrow>
             (Inr ltv_matrix, calc1\<lparr>total_debt := original_debt\<rparr>))"

section \<open>Debt frame and its metrics (src/parsers/debt\_parser.py)\<close>

text \<open>
  The parsed DataFrame, one record per row. A datetime is a count of microseconds on the
  time line; \<^verbatim>\<open>None\<close>, NaN and NaT are \<open>None\<close>.
\<close>

type_synonym timestamp = int

record bond =
  Name :: string
  Issue_Date :: "timestamp option"
  Maturity :: "timestamp option"
  Put_Date :: "timestamp option"
  Earliest_Call_Date :: "timestamp option"
  Price :: "real option"
  Coupon :: "real option"
  Notional :: "real option"
  Market_Val :: "real option"
  BTC_Par :: "real option"
  Ref_Price :: "real option"
  Conversion_Price :: "real option"

text \<open>
  A numeric column that \<^verbatim>\<open>parse_debt_data\<close> has converted is a float64 Series when
  at least one of its cells holds a number; with no rows, or \<^verbatim>\<open>None\<close> in every cell,
  it stays an object Series. Selecting, sorting and filtering rows keep the dtype.
\<close>

datatype dtype = Float64 | Object

type_synonym series = "dtype \<times> real option list"

definition dtype_of :: "real option list \<Rightarrow> dtype" where
  "dtype_of xs = (if list_ex (\<lambda>x. x \<noteq> None) xs then Float64 else Object)"

definition column :: "('r \<Rightarrow> real option) \<Rightarrow> 'r list \<Rightarrow> series" where
  "column f df = (dtype_of (map f df), map f df)"

text \<open>
  Elementwise product of two Series: NaN where either operand is NaN; float64 when
  both are, an object Series otherwise.
\<close>

fun nan_mul :: "real option \<Rightarrow> real option \<Rightarrow> real option" where
  "nan_mul (Some x) (Some y) = Some (x * y)"
| "nan_mul _ _ = None"

definition series_mul :: "series \<Rightarrow> series \<Rightarrow> series" where
  "series_mul s t =
     (if fst s = Float64 \<and> fst t = Float64 then Float64 else Object,
      map (\<lambda>(x, y). nan_mul x y) (zip (snd s) (snd t)))"

text \<open>
  \<^verbatim>\<open>Series.sum()\<close> skips NaN and the sum of no values is zero: a numpy float64 for a
  float64 Series, the Python int 0 for an object Series (which holds no number).
\<close>

fun nan_to_zero :: "real option \<Rightarrow> real" where
  "nan_to_zero None = 0"
| "nan_to_zero (Some x) = x"

definition series_sum :: "series \<Rightarrow> num" where
  "series_sum s =
     (case fst s of
        Float64 \<Rightarrow> Np (Finite (sum_list (map nan_to_zero (snd s))))
      | Object \<Rightarrow> Py (Finite (sum_list (map nan_to_zero (snd s)))))"

text \<open>\<^verbatim>\<open>Series.min()\<close> and \<^verbatim>\<open>Series.max()\<close> skip NaT; with no date left they are NaT.\<close>

fun series_min :: "timestamp option list \<Rightarrow> timestamp option" where
  "series_min [] = None"
| "series_min (None # xs) = series_min xs"
| "series_min (Some x # xs) =
     (case series_min xs of None \<Rightarrow> Some x | Some m \<Rightarrow> Some (min x m))"

fun series_max :: "timestamp option list \<Rightarrow> timestamp option" where
  "series_max [] = None"
| "series_max (None # xs) = series_max xs"
| "series_max (Some x # xs) =
     (case series_max xs of None \<Rightarrow> Some x | Some m \<Rightarrow> Some (max x m))"

record debt_metrics =
  total_notional :: num
  total_market_value :: num
  weighted_avg_coupon :: num
  weighted_avg_conversion_price :: num
  num_bonds :: nat
  nearest_maturity :: "timestamp option"
  furthest_maturity :: "timestamp option"

text \<open>The entries of the dict in the order the source evaluates them.\<close>

definition calculate_debt_metrics :: "bond list \<Rightarrow> error + debt_metrics" where
  "calculate_debt_metrics df =
     (let total = series_sum (column Notional df);
          market = series_sum (column Market_Val df)
      in case num_truediv (series_sum (series_mul (column Coupon df) (column Notional df)))
                          (series_sum (column Notional df)) of
           Inl e \<Rightarrow> Inl e
         | Inr avg_coupon \<Rightarrow>
             (case num_truediv
                     (series_sum (series_mul (column Conversion_Price df) (column Notional df)))
                     (series_sum (column Notional df)) of
                Inl e \<Rightarrow> Inl e
              | Inr avg_conversion \<Rightarrow>
                  Inr \<lparr>total_notional = total,
                       total_market_value = market,
                       weighted_avg_coupon = avg_coupon,
                       weighted_avg_conversion_price = avg_conversion,
                       num_bonds = length df,
                       nearest_maturity = series_min (map Maturity df),
                       furthest_maturity = series_max (map Maturity df)\<rparr>))"

text \<open>
  The weighted average coupon as the specification words it: both sums run over the
  records that have a coupon and a notional, and a zero denominator is an error.
\<close>

datatype spec_error = DivideByZero

definition both_present :: "bond \<Rightarrow> bool" where
  "both_present r = (Coupon r \<noteq> None \<and> Notional r \<noteq> None)"

definition spec_weighted_avg_coupon :: "bond list \<Rightarrow> spec_error + real" where
  "spec_weighted_avg_coupon df =
     (let rs = filter both_present df;
          num = sum_list (map (\<lambda>r. the (Coupon r) * the (Notional r)) rs);
          den = sum_list (map (\<lambda>r. the (Notional r)) rs)
      in if den = 0 then Inl DivideByZero else Inr (num / den))"

section \<open>Maturity analyzer (src/models/maturity\_analysis.py)\<close>

text \<open>Rounding to the nearest integer, ties to even: Python's and numpy's rounding.\<close>

definition round_half_even :: "real \<Rightarrow> int" where
  "round_half_even x =
     (let f = \<lfloor>x\<rfloor>; r = x - of_int f
      in if r < 1 / 2 then f
         else if 1 / 2 < r then f + 1
         else if even f then f else f + 1)"

text \<open>\<^verbatim>\<open>Series.round(2)\<close>.\<close>

definition round2 :: "real \<Rightarrow> real" where
  "round2 x = of_int (round_half_even (x * 100)) / 100"

text \<open>\<^verbatim>\<open>timedelta(days=d)\<close> in microseconds, rounded to the nearest microsecond.\<close>

definition microseconds_per_day :: int where
  "microseconds_per_day = 86400000000"


text \<open>
  \<^verbatim>\<open>sort_values('Maturity')\<close>: ascending, NaT last. The order it leaves between rows
  of equal maturity is the sorting routine's; here such rows keep their order.
\<close>

fun maturity_le :: "timestamp option \<Rightarrow> timestamp option \<Rightarrow> bool" where
  "maturity_le (Some a) (Some b) = (a \<le> b)"
| "maturity_le None (Some b) = False"
| "maturity_le a None = True"

fun insert_by_maturity :: "bond \<Rightarrow> bond list \<Rightarrow> bond list" where
  "insert_by_maturity r [] = [r]"
| "insert_by_maturity r (x # xs) =
     (if maturity_le (Maturity r) (Maturity x) then r # x # xs
      else x # insert_by_maturity r xs)"

definition sort_values_Maturity :: "bond list \<Rightarrow> bond list" where
  "sort_values_Maturity df = foldr insert_by_maturity df []"

record MaturityAnalyzer =
  debt_df :: "bond list"

definition init_MaturityAnalyzer :: "bond list \<Rightarrow> MaturityAnalyzer" where
  "init_MaturityAnalyzer df = \<lparr>debt_df = sort_values_Maturity df\<rparr>"

record schedule_row =
  sch_Name :: string
  sch_Maturity :: "timestamp option"
  sch_Notional :: "real option"
  sch_Coupon :: "real option"
  sch_Put_Date :: "timestamp option"
  Years_to_Maturity :: "real option"
  Years_to_Put :: "real option"

text \<open>
  \<^verbatim>\<open>((date - now).dt.days / 365.25).round(2)\<close>: whole days (rounded down) between
  \<open>now\<close> and the date, in years; NaN for NaT.
\<close>

definition years_to :: "timestamp \<Rightarrow> timestamp option \<Rightarrow> real option" where
  "years_to now date =
     (case date of
        None \<Rightarrow> None
      | Some t \<Rightarrow> Some (round2 (of_int ((t - now) div microseconds_per_day) / 365.25)))"

text \<open>The clock reading \<^verbatim>\<open>now\<close> is an argument of the methods that read the clock.\<close>

definition get_maturity_schedule :: "timestamp \<Rightarrow> MaturityAnalyzer \<Rightarrow> schedule_row list" where
  "get_maturity_schedule now self =
     map (\<lambda>r. \<lparr>sch_Name = Name r, sch_Maturity = Maturity r, sch_Notional = Notional r,
               sch_Coupon = Coupon r, sch_Put_Date = Put_Date r,
               Years_to_Maturity = years_to now (Maturity r),
               Years_to_Put = years_to now (Put_Date r)\<rparr>) (debt_df self)"




section \<open>Field parsers (src/parsers/debt\_parser.py)\<close>

text \<open>
  A Python string is its UTF-8 bytes; the em dash, the table's mark for an empty cell,
  is three of them.
\<close>

definition em_dash :: string where
  "em_dash = [CHR 0xE2, CHR 0x80, CHR 0x94]"

definition is_digit :: "char \<Rightarrow> bool" where
  "is_digit c = (48 \<le> (of_char c :: nat) \<and> (of_char c :: nat) \<le> 57)"

definition is_space :: "char \<Rightarrow> bool" where
  "is_space c = (c \<in> set [CHR 0x20, CHR 0x09, CHR 0x0A, CHR 0x0B, CHR 0x0C, CHR 0x0D])"

definition strip :: "string \<Rightarrow> string" where
  "strip s = rev (dropWhile is_space (rev (dropWhile is_space s)))"

definition digits_value :: "string \<Rightarrow> nat" where
  "digits_value ds = foldl (\<lambda>a c. 10 * a + (of_char c - 48)) 0 ds"

text \<open>
  The builtin \<^verbatim>\<open>float\<close> on text in plain decimal notation: blanks around, a sign,
  digits with at most one point, at least one digit; other text is a ValueError.
  Exponents, \<^verbatim>\<open>inf\<close>, \<^verbatim>\<open>nan\<close> and underscores between digits are left out of the model.
\<close>

definition py_float :: "string \<Rightarrow> error + real" where
  "py_float s =
     (let t = strip s;
          neg = (t \<noteq> [] \<and> hd t = CHR ''-'');
          body = (if t \<noteq> [] \<and> (hd t = CHR ''-'' \<or> hd t = CHR ''+'') then tl t else t);
          int_part = takeWhile is_digit body;
          rest = dropWhile is_digit body;
          frac_part = (if rest = [] then Some []
                       else if hd rest = CHR ''.'' \<and> list_all is_digit (tl rest)
                       then Some (tl rest) else None)
      in case frac_part of
           None \<Rightarrow> Inl ValueError
         | Some ds \<Rightarrow>
             if int_part = [] \<and> ds = [] then Inl ValueError
             else (let v = real (digits_value int_part)
                           + real (digits_value ds) / 10 ^ length ds
                   in Inr (if neg then - v else v)))"

definition parse_currency :: "string option \<Rightarrow> error + real option" where
  "parse_currency value_str =
     (case value_str of
        None \<Rightarrow> Inr None
      | Some s \<Rightarrow>
          if s = [] \<or> s = em_dash then Inr None
          else (case py_float (filter (\<lambda>c. c \<noteq> CHR ''$'' \<and> c \<noteq> CHR '','') s) of
                  Inl e \<Rightarrow> Inl e
                | Inr v \<Rightarrow> Inr (Some v)))"

definition parse_percentage :: "string option \<Rightarrow> error + real option" where
  "parse_percentage value_str =
     (case value_str of
        None \<Rightarrow> Inr None
      | Some s \<Rightarrow>
          if s = [] \<or> s = em_dash then Inr None
          else (case py_float (filter (\<lambda>c. c \<noteq> CHR ''%'') s) of
                  Inl e \<Rightarrow> Inl e
                | Inr v \<Rightarrow> Inr (Some v)))"

text \<open>
  \<^verbatim>\<open>datetime.strptime(s, '%m/%d/%Y')\<close>: a month of one or two digits (1 to 12), a day
  of one or two digits (1 to 31, or a blank and one digit), a year of four digits,
  with slashes between, and a day that the month has. The result is (year, month, day).
\<close>

type_synonym date = "nat \<times> nat \<times> nat"

fun split_on :: "char \<Rightarrow> string \<Rightarrow> string list" where
  "split_on sep [] = [[]]"
| "split_on sep (c # cs) =
     (if c = sep then [] # split_on sep cs
      else (case split_on sep cs of
              [] \<Rightarrow> [[c]]
            | w # ws \<Rightarrow> (c # w) # ws))"

definition month_field :: "string \<Rightarrow> nat option" where
  "month_field s =
     (if s \<noteq> [] \<and> length s \<le> 2 \<and> list_all is_digit s
         \<and> 1 \<le> digits_value s \<and> digits_value s \<le> 12
      then Some (digits_value s) else None)"

definition day_field :: "string \<Rightarrow> nat option" where
  "day_field s =
     (if s \<noteq> [] \<and> length s \<le> 2 \<and> list_all is_digit s
         \<and> 1 \<le> digits_value s \<and> digits_value s \<le> 31
      then Some (digits_value s)
      else if length s = 2 \<and> hd s = CHR 0x20 \<and> is_digit (s ! 1) \<and> 1 \<le> digits_value (tl s)
      then Some (digits_value (tl s)) else None)"

definition year_field :: "string \<Rightarrow> nat option" where
  "year_field s =
     (if length s = 4 \<and> list_all is_digit s then Some (digits_value s) else None)"

definition days_in_month :: "nat \<Rightarrow> nat \<Rightarrow> nat" where
  "days_in_month y m =
     (if m = 2 then (if y mod 4 = 0 \<and> (y mod 400 = 0 \<or> y mod 100 \<noteq> 0) then 29 else 28)
      else if m = 4 \<or> m = 6 \<or> m = 9 \<or> m = 11 then 30 else 31)"

definition strptime_mdY :: "string \<Rightarrow> error + date" where
  "strptime_mdY s =
     (case split_on (CHR ''/'') s of
        [ms, ds, ys] \<Rightarrow>
          (case (month_field ms, day_field ds, year_field ys) of
             (Some m, Some d, Some y) \<Rightarrow>
               if 1 \<le> y \<and> d \<le> days_in_month y m then Inr (y, m, d) else Inl ValueError
           | _ \<Rightarrow> Inl ValueError)
      | _ \<Rightarrow> Inl ValueError)"

text \<open>The \<^verbatim>\<open>try\<close> of \<^verbatim>\<open>parse_date\<close> turns a ValueError, and only that, into \<^verbatim>\<open>None\<close>.\<close>

definition parse_date :: "string option \<Rightarrow> error + date option" where
  "parse_date date_str =
     (case date_str of
        None \<Rightarrow> Inr None
      | Some s \<Rightarrow>
          if s = [] \<or> s = em_dash then Inr None
          else (case strptime_mdY s of
                  Inl ValueError \<Rightarrow> Inr None
                | Inl e \<Rightarrow> Inl e
                | Inr d \<Rightarrow> Inr (Some d)))"

section \<open>Table parser (src/parsers/debt\_parser.py)\<close>

text \<open>
  The input is the document as BeautifulSoup presents it: the first table, if any; the
  header cells of the first row of its \<^verbatim>\<open>thead\<close>, each with its \<^verbatim>\<open>aria-label\<close>
  attribute and its stripped text; and the rows of its \<^verbatim>\<open>tbody\<close>, each with its
  classes and the stripped texts of its cells. A missing \<^verbatim>\<open>thead\<close>, header row or
  \<^verbatim>\<open>tbody\<close> is \<open>None\<close>.
\<close>

record header_cell =
  aria_label :: "string option"
  th_text :: string

record body_row =
  tr_class :: "string list"
  td_text :: "string list"

record html_table =
  thead_tr :: "header_cell list option"
  tbody :: "body_row list option"

text \<open>\<^verbatim>\<open>sub in s\<close> on strings.\<close>

fun starts_with :: "string \<Rightarrow> string \<Rightarrow> bool" where
  "starts_with [] s = True"
| "starts_with (p # ps) [] = False"
| "starts_with (p # ps) (c # cs) = (p = c \<and> starts_with ps cs)"

fun contains :: "string \<Rightarrow> string \<Rightarrow> bool" where
  "contains sub [] = (sub = [])"
| "contains sub (c # cs) = (starts_with sub (c # cs) \<or> contains sub cs)"

text \<open>
  A DataFrame is its columns in order, each a label and its cells; a cell is a text as
  read, or a number or a date once its column is converted, each possibly missing.
  A label is looked up from the left; the labels of a table are taken to be distinct.
\<close>

datatype cell = Text "string option" | Number "real option" | Datetime "date option"

type_synonym frame = "(string \<times> cell list) list"

text \<open>
  \<^verbatim>\<open>pd.DataFrame(rows_data, columns=headers)\<close>: short rows are padded with \<^verbatim>\<open>None\<close>
  to the longest row, whose length must be the number of headers; no rows give empty
  columns.
\<close>

definition DataFrame :: "string list list \<Rightarrow> string list \<Rightarrow> error + frame" where
  "DataFrame rows_data headers =
     (if rows_data = [] then Inr (map (\<lambda>h. (h, [])) headers)
      else if foldr max (map length rows_data) 0 \<noteq> length headers then Inl ValueError
      else Inr (map (\<lambda>(j, h).
                   (h, map (\<lambda>row. Text (if j < length row then Some (row ! j) else None))
                         rows_data))
                 (enumerate 0 headers)))"

text \<open>\<^verbatim>\<open>Series.apply(f)\<close>: \<open>f\<close> on each cell from the top; the first exception ends it.\<close>

fun apply_cells :: "(cell \<Rightarrow> error + cell) \<Rightarrow> cell list \<Rightarrow> error + cell list" where
  "apply_cells f [] = Inr []"
| "apply_cells f (c # cs) =
     (case f c of
        Inl e \<Rightarrow> Inl e
      | Inr v \<Rightarrow> (case apply_cells f cs of Inl e \<Rightarrow> Inl e | Inr vs \<Rightarrow> Inr (v # vs)))"

text \<open>\<^verbatim>\<open>df[name] = df[name].apply(f)\<close>; a label the frame lacks is a KeyError.\<close>

definition apply_column :: "string \<Rightarrow> (cell \<Rightarrow> error + cell) \<Rightarrow> frame \<Rightarrow> error + frame" where
  "apply_column name f df =
     (case map_of df name of
        None \<Rightarrow> Inl KeyError
      | Some col \<Rightarrow>
          (case apply_cells f col of
             Inl e \<Rightarrow> Inl e
           | Inr col' \<Rightarrow> Inr (map (\<lambda>(h, c). if h = name then (h, col') else (h, c)) df)))"

text \<open>
  The parsers on cells. Each column is converted once, so a parser only ever meets
  text; on a converted cell the string operations would raise a TypeError.
\<close>

fun date_cell :: "cell \<Rightarrow> error + cell" where
  "date_cell (Text s) = (case parse_date s of Inl e \<Rightarrow> Inl e | Inr d \<Rightarrow> Inr (Datetime d))"
| "date_cell c = Inl TypeError"

fun currency_cell :: "cell \<Rightarrow> error + cell" where
  "currency_cell (Text s) =
     (case parse_currency s of Inl e \<Rightarrow> Inl e | Inr v \<Rightarrow> Inr (Number v))"
| "currency_cell c = Inl TypeError"

fun percentage_cell :: "cell \<Rightarrow> error + cell" where
  "percentage_cell (Text s) =
     (case parse_percentage s of Inl e \<Rightarrow> Inl e | Inr v \<Rightarrow> Inr (Number v))"
| "percentage_cell c = Inl TypeError"

text \<open>The conversions of \<^verbatim>\<open>parse_debt_data\<close>, in the order of its statements.\<close>

definition conversions :: "(string \<times> (cell \<Rightarrow> error + cell)) list" where
  "conversions =
     [(''Issue Date'', date_cell),
      (''Maturity'', date_cell),
      (''Put Date'', date_cell),
      (''Earliest Call Date'', date_cell),
      (''Price'', currency_cell),
      (''Coupon'', percentage_cell),
      (''Notional ($M)'', currency_cell),
      (''Market Val ($M)'', currency_cell),
      (''BTC Par'', currency_cell),
      (''Ref Price'', currency_cell),
      (''Conversion Price'', currency_cell)]"

fun convert_columns ::
  "(string \<times> (cell \<Rightarrow> error + cell)) list \<Rightarrow> frame \<Rightarrow> error + frame" where
  "convert_columns [] df = Inr df"
| "convert_columns ((name, f) # rest) df =
     (case apply_column name f df of
        Inl e \<Rightarrow> Inl e
      | Inr df' \<Rightarrow> convert_columns rest df')"

definition parse_debt_data :: "html_table option \<Rightarrow> error + frame" where
  "parse_debt_data soup_table =
     (case soup_table of
        None \<Rightarrow> Inl ValueError
      | Some table \<Rightarrow>
          (case thead_tr table of
             None \<Rightarrow> Inl AttributeError
           | Some ths \<Rightarrow>
               (let headers = map (\<lambda>th. case aria_label th of
                                           Some label \<Rightarrow> label
                                         | None \<Rightarrow> th_text th) ths
                in case tbody table of
                     None \<Rightarrow> Inl AttributeError
                   | Some trs \<Rightarrow>
                       (let rows_data =
                              map td_text
                                (filter (\<lambda>tr. \<not> list_ex (contains ''totalsRow'') (tr_class tr)
                                              \<and> td_text tr \<noteq> []) trs)
                        in case DataFrame rows_data headers of
                             Inl e \<Rightarrow> Inl e
                           | Inr df \<Rightarrow> convert_columns conversions df))))"

section \<open>Vocabulary of the statements and example inputs\<close>

definition notional_present :: "bond \<Rightarrow> bool" where
  "notional_present r = (Notional r \<noteq> None)"

text \<open>The dates of a Maturity column, NaT left out.\<close>

definition dates :: "timestamp option list \<Rightarrow> timestamp list" where
  "dates ms = map the (filter (\<lambda>m. m \<noteq> None) ms)"

text \<open>The kind of a result of operands \<open>a\<close>, \<open>b\<close> and \<open>c\<close>: numpy when one of them is.\<close>

definition kind_of3 :: "num \<Rightarrow> num \<Rightarrow> num \<Rightarrow> float64 \<Rightarrow> num" where
  "kind_of3 a b c x = (if is_np a \<or> is_np b \<or> is_np c then Np x else Py x)"

text \<open>
  What a division by zero with a numpy operand gives for the dividend \<open>d\<close>: NaN for
  zero, an infinity otherwise (of the sign of \<open>d\<close> or the other, by the sign of the
  zero).
\<close>

definition zero_division_value :: "real \<Rightarrow> error + num \<Rightarrow> bool" where
  "zero_division_value d r =
     (if d = 0 then r = Inr (Np NaN) else r = Inr (Np PosInf) \<or> r = Inr (Np NegInf))"

text \<open>The calculator of the module's own example run: Python numbers throughout.\<close>

definition scenario_state :: LiquidationCalculator where
  "scenario_state =
     init_LiquidationCalculator (py 447470) (py 100000) (py 8214) (py (8214 * 0.00421))"

text \<open>
  The same position as \<^verbatim>\<open>analyze.py\<close> builds it, the debt and the interest being numpy
  float64 values; and both with no holdings.
\<close>

definition numpy_debt_state :: LiquidationCalculator where
  "numpy_debt_state =
     init_LiquidationCalculator (py 447470) (py 100000) (Np (Finite 8214))
       (Np (Finite (8214 * 0.00421)))"

definition no_holdings :: "LiquidationCalculator \<Rightarrow> LiquidationCalculator" where
  "no_holdings c = c\<lparr>btc_holdings := py 0\<rparr>"

text \<open>A row with a name, a maturity, a coupon and a notional, every other cell absent.\<close>

definition test_bond ::
  "string \<Rightarrow> timestamp option \<Rightarrow> real option \<Rightarrow> real option \<Rightarrow> bond" where
  "test_bond n m c v =
     \<lparr>Name = n, Issue_Date = None, Maturity = m, Put_Date = None,
      Earliest_Call_Date = None, Price = None, Coupon = c, Notional = v,
      Market_Val = None, BTC_Par = None, Ref_Price = None, Conversion_Price = None\<rparr>"


text \<open>
  A table with the twelve labelled columns, one bond row and a totals row; the text of
  the bond's Maturity cell and of its Price cell are left open.
\<close>

definition example_headers :: "header_cell list" where
  "example_headers =
     map (\<lambda>label. \<lparr>aria_label = Some label, th_text = []\<rparr>)
       [''Name'', ''Issue Date'', ''Maturity'', ''Put Date'', ''Earliest Call Date'',
        ''Price'', ''Coupon'', ''Notional ($M)'', ''Market Val ($M)'', ''BTC Par'',
        ''Ref Price'', ''Conversion Price'']"

definition example_table :: "string \<Rightarrow> string \<Rightarrow> html_table" where
  "example_table maturity_text price_text =
     \<lparr>thead_tr = Some example_headers,
      tbody = Some
        [\<lparr>tr_class = [],
          td_text = [''2028 Convert'', ''12/15/2021'', maturity_text, em_dash, em_dash,
                     price_text, ''0.625%'', ''$1,010.0'', ''$1,500.5'', ''5,000'',
                     ''$143.25'', ''$183.19'']\<rparr>,
         \<lparr>tr_class = [''row totalsRow''], td_text = [''Total'']\<rparr>]\<rparr>"


section \<open>The liquidation calculator: results\<close>

lemmas engine_defs =
  calculate_btc_value_def calculate_ltv_ratio_def calculate_collateral_coverage_def
  calculate_liquidation_price_def calculate_margin_of_safety_def
  calculate_interest_coverage_def

lemmas num_defs =
  num_truediv_def num_mul_def num_sub_def result_of_def py_def f_sub_def signed_inf_def
  kind_of3_def

lemmas scenario_defs =
  scenario_state_def numpy_debt_state_def no_holdings_def init_LiquidationCalculator_def

text \<open>
  C10. For every calculator and a zero override \<open>z\<close> (the Python 0 or a numpy 0.0),
  \<^verbatim>\<open>calculate_btc_value\<close>, \<^verbatim>\<open>calculate_ltv_ratio\<close> and \<^verbatim>\<open>calculate_collateral_coverage\<close>
  called with \<open>z\<close> return exactly what they return with no override. The falsy override
  is replaced by the stored price: the collateral value is holdings times the stored
  price and the ratio is the debt divided by that, so the override 0 by itself yields
  neither a zero collateral value nor a division by zero.
\<close>

theorem zero_override_is_no_override:
  assumes "fval z = Finite 0"
  shows "calculate_btc_value (Some z) c = calculate_btc_value None c \<and>
         calculate_ltv_ratio (Some z) c = calculate_ltv_ratio None c \<and>
         calculate_collateral_coverage (Some z) c = calculate_collateral_coverage None c \<and>
         fst (calculate_btc_value (Some z) c) = num_mul (btc_holdings c) (btc_price c) \<and>
         fval (fst (calculate_btc_value (Some z) c))
           = f_mul (fval (btc_holdings c)) (fval (btc_price c)) \<and>
         fst (calculate_ltv_ratio (Some z) c)
           = num_truediv (total_debt c) (num_mul (btc_holdings c) (btc_price c))"
  using assms
  by (cases "btc_holdings c"; cases "btc_price c")
     (simp_all add: engine_defs py_or_def num_defs)

theorem zero_override_is_no_override_witness:
  "fst (calculate_btc_value (Some (py 0)) scenario_state) = py 44747000000 \<and>
   fst (calculate_btc_value (Some (Np (Finite 0))) scenario_state) = py 44747000000 \<and>
   fst (calculate_btc_value None scenario_state) = py 44747000000 \<and>
   fst (calculate_ltv_ratio (Some (py 0)) scenario_state) = Inr (py (8214 / 44747))"
  using zero_override_is_no_override[of "py 0" scenario_state]
    zero_override_is_no_override[of "Np (Finite 0)" scenario_state]
  by (simp add: scenario_defs num_defs engine_defs py_or_def)




text \<open>
  C5, as the code has it. \<^verbatim>\<open>calculate_liquidation_price\<close> does not check its argument.
  Let the debt \<open>d\<close>, the holdings \<open>h\<close> and \<open>target_ltv\<close> \<open>t\<close> be finite. When \<open>h * t\<close> is
  not zero, for a negative \<open>t\<close> as for a positive one, it returns \<open>d / (h * t)\<close>. When
  \<open>h * t\<close> is zero, it raises ZeroDivisionError if debt, holdings and \<open>target_ltv\<close> are
  all Python numbers, and if one of them is a numpy float64 it raises nothing and
  returns NaN or an infinity.
\<close>

theorem liquidation_price_unchecked:
  assumes "fval (total_debt c) = Finite d"
    and "fval (btc_holdings c) = Finite h"
    and "fval target = Finite t"
  shows "if h * t \<noteq> 0
         then fst (calculate_liquidation_price target c) =
                Inr (kind_of3 (total_debt c) (btc_holdings c) target (Finite (d / (h * t))))
         else if is_np (total_debt c) \<or> is_np (btc_holdings c) \<or> is_np target
         then zero_division_value d (fst (calculate_liquidation_price target c))
         else fst (calculate_liquidation_price target c) = Inl ZeroDivisionError"
  using assms
  by (cases "total_debt c"; cases "btc_holdings c"; cases target)
     (auto simp: engine_defs num_defs zero_division_value_def)

theorem liquidation_price_unchecked_witness:
  "fst (calculate_liquidation_price (py (- 1 / 2)) scenario_state)
     = Inr (py (- 1642800000 / 44747)) \<and>
   fst (calculate_liquidation_price (py 0) scenario_state) = Inl ZeroDivisionError \<and>
   fst (calculate_liquidation_price (py 0) numpy_debt_state) = Inr (Np PosInf)"
  using liquidation_price_unchecked[of scenario_state 8214000000 447470 "py (- 1 / 2)" "- 1 / 2"]
    liquidation_price_unchecked[of scenario_state 8214000000 447470 "py 0" 0]
    liquidation_price_unchecked[of numpy_debt_state 8214000000 447470 "py 0" 0]
  by (simp add: scenario_defs num_defs zero_division_value_def engine_defs)

text \<open>
  C5 as stated fails: for \<open>target_ltv = -1/2\<close> the example calculator returns a
  (negative) price and no error.
\<close>

theorem liquidation_price_negative_target_counterexample:
  "fst (calculate_liquidation_price (py (- 1 / 2)) scenario_state)
     = Inr (py (- 1642800000 / 44747))"
  by (simp add: scenario_defs engine_defs num_defs)

text \<open>
  C7. For every calculator with holdings > 0 and debt > 0 and every \<open>target_ltv\<close> in
  (0, 1], of Python numbers or numpy floats, \<^verbatim>\<open>calculate_liquidation_price\<close> returns a
  price, and \<^verbatim>\<open>calculate_ltv_ratio\<close> at that price returns exactly \<open>target_ltv\<close>: the
  number of that value, a numpy float64 when the debt, the holdings or \<open>target_ltv\<close> is
  one and a Python float otherwise.
\<close>

theorem ltv_at_liquidation_price:
  assumes "fval (btc_holdings c) = Finite h" and "0 < h"
    and "fval (total_debt c) = Finite d" and "0 < d"
    and "fval target = Finite t" and "0 < t" and "t \<le> 1"
  shows "\<exists>p r. fst (calculate_liquidation_price target c) = Inr p \<and>
               fst (calculate_ltv_ratio (Some p) c) = Inr r \<and>
               r = kind_of3 (total_debt c) (btc_holdings c) target (Finite t)"
  using assms
  by (cases "total_debt c"; cases "btc_holdings c"; cases target)
     (auto simp: engine_defs num_defs py_or_def)

theorem ltv_at_liquidation_price_witness:
  "\<exists>p. fst (calculate_liquidation_price (py (85 / 100)) scenario_state) = Inr p \<and>
       fst (calculate_ltv_ratio (Some p) scenario_state) = Inr (py (85 / 100))"
  using ltv_at_liquidation_price[of scenario_state 447470 8214000000 "py (85 / 100)" "85 / 100"]
  by (simp add: scenario_defs num_defs)

text \<open>
  C3, with the values the code computes. On the example calculator (holdings 447470,
  price 100000, debt 8214000000): the BTC value is 44747000000, the LTV ratio is
  8214/44747, within 0.0001 of 0.1835; the liquidation price at 0.85 is
  8214000000 / (447470 * 0.85), within 1 of 21596; and the price drop percent of the
  margin of safety at 0.85 is within 0.1 of 78.4.
\<close>

theorem scenario_end_to_end:
  "total_debt scenario_state = py 8214000000 \<and>
   fst (calculate_btc_value None scenario_state) = py 44747000000 \<and>
   fst (calculate_ltv_ratio None scenario_state) = Inr (py (8214 / 44747)) \<and>
   \<bar>8214 / 44747 - 0.1835\<bar> < (0.0001::real) \<and>
   fst (calculate_liquidation_price (py 0.85) scenario_state)
     = Inr (py (8214000000 / (447470 * 0.85))) \<and>
   \<bar>8214000000 / (447470 * 0.85) - 21596\<bar> < (1::real) \<and>
   map_sum id price_drop_percent (fst (calculate_margin_of_safety (py 0.85) scenario_state))
     = Inr (py ((100000 - 8214000000 / (447470 * 0.85)) / 100000 * 100)) \<and>
   \<bar>(100000 - 8214000000 / (447470 * 0.85)) / 100000 * 100 - 78.4\<bar> < (0.1::real)"
  by (simp add: scenario_defs engine_defs py_or_def num_defs)

text \<open>
  C3 as stated fails: the liquidation price at 0.85 is 16428000000/760699, more than
  10000 away from 11473, and the price drop percent is 59641900/760699, more than 10
  away from 88.5.
\<close>

theorem scenario_liquidation_price_counterexample:
  "fst (calculate_liquidation_price (py 0.85) scenario_state)
     = Inr (py (16428000000 / 760699)) \<and>
   \<bar>16428000000 / 760699 - 11473\<bar> > (10000::real) \<and>
   map_sum id price_drop_percent (fst (calculate_margin_of_safety (py 0.85) scenario_state))
     = Inr (py (59641900 / 760699)) \<and>
   \<bar>59641900 / 760699 - 88.5\<bar> > (10::real)"
  by (simp add: scenario_defs engine_defs py_or_def num_defs)

section \<open>Frame: what a call leaves of the calculator\<close>

lemma snd_calculate_ltv_ratio: "snd (calculate_ltv_ratio p c) = c"
  by (simp add: engine_defs)

lemma snd_calculate_collateral_coverage: "snd (calculate_collateral_coverage p c) = c"
  by (simp add: engine_defs split: sum.splits prod.splits)

lemma snd_calculate_margin_of_safety: "snd (calculate_margin_of_safety t c) = c"
  by (simp add: engine_defs Let_def split: sum.splits prod.splits)

lemma snd_stress_rows: "snd (stress_rows xs c) = c"
proof (induction xs arbitrary: c)
  case Nil
  show ?case by simp
next
  case (Cons x xs)
  obtain name price where x: "x = (name, price)"
    by (cases x)
  have ltv: "snd (calculate_ltv_ratio (Some price) c) = c"
    by (rule snd_calculate_ltv_ratio)
  have cov: "snd (calculate_collateral_coverage (Some price) c) = c"
    by (rule snd_calculate_collateral_coverage)
  show ?case
    using Cons.IH[of c] ltv cov
    by (auto simp: x calculate_btc_value_def split: sum.splits prod.splits)
qed

text \<open>With a numpy debt the ratio is numpy's division: it returns.\<close>

lemma ltv_ratio_numpy_debt:
  "is_np (total_debt c) \<Longrightarrow> \<exists>r. calculate_ltv_ratio p c = (Inr r, c)"
  by (simp add: engine_defs num_truediv_def)

lemma is_np_num_mul: "is_np b \<Longrightarrow> is_np (num_mul a b)"
  by (simp add: num_mul_def result_of_def)

lemma heatmap_cells_numpy:
  assumes "is_np m"
  shows "\<exists>cells. heatmap_cells od m ps calc =
           (Inr cells, if ps = [] then calc else calc\<lparr>total_debt := num_mul od m\<rparr>)"
proof (induction ps arbitrary: calc)
  case Nil
  show ?case by simp
next
  case (Cons p ps)
  let ?c1 = "calc\<lparr>total_debt := num_mul od m\<rparr>"
  have "is_np (total_debt ?c1)"
    using assms by (simp add: is_np_num_mul)
  then obtain r where r: "calculate_ltv_ratio (Some p) ?c1 = (Inr r, ?c1)"
    using ltv_ratio_numpy_debt by blast
  obtain cells where "heatmap_cells od m ps ?c1 =
      (Inr cells, if ps = [] then ?c1 else ?c1\<lparr>total_debt := num_mul od m\<rparr>)"
    using Cons.IH[of ?c1] by blast
  then show ?case
    using r by (auto simp: Let_def)
qed

lemma heatmap_sweep_numpy:
  assumes "\<forall>m\<in>set ms. is_np m" and "ps \<noteq> []" and "ms \<noteq> []"
  shows "\<exists>rows. heatmap_sweep od ms ps calc =
           (Inr rows, calc\<lparr>total_debt := num_mul od (last ms)\<rparr>)"
  using assms
proof (induction ms arbitrary: calc)
  case Nil
  then show ?case by simp
next
  case (Cons m ms)
  let ?c1 = "calc\<lparr>total_debt := num_mul od m\<rparr>"
  have "is_np m"
    using Cons.prems(1) by simp
  then obtain cells where hc: "heatmap_cells od m ps calc = (Inr cells, ?c1)"
    using heatmap_cells_numpy[of m od ps calc] Cons.prems(2) by auto
  show ?case
  proof (cases "ms = []")
    case True
    then show ?thesis using hc by simp
  next
    case False
    have "\<forall>m\<in>set ms. is_np m"
      using Cons.prems(1) by simp
    then obtain rows where "heatmap_sweep od ms ps ?c1 =
        (Inr rows, ?c1\<lparr>total_debt := num_mul od (last ms)\<rparr>)"
      using Cons.IH[OF _ Cons.prems(2) False, of ?c1] by blast
    then show ?thesis using hc False by simp
  qed
qed

lemma linspace_nonempty: "0 < n \<Longrightarrow> linspace a b n \<noteq> []"
  by (simp add: linspace_def)

lemma last_linspace: "1 < n \<Longrightarrow> last (linspace a b n) = Np (Finite b)"
  by (simp add: linspace_def last_map)

lemma linspace_numpy: "\<forall>m\<in>set (linspace a b n). is_np m"
  by (auto simp: linspace_def)

lemma sweep_state:
  "\<exists>rows. heatmap_sweep (total_debt calc) (linspace lo hi 15) (linspace a b 20) calc
     = (Inr rows, calc\<lparr>total_debt := num_mul (total_debt calc) (Np (Finite hi))\<rparr>)"
  using heatmap_sweep_numpy[OF linspace_numpy, of "linspace a b 20" lo hi 15 "total_debt calc" calc]
  by (simp add: linspace_nonempty last_linspace)

lemma create_ltv_heatmap_returns:
  "\<exists>ltv_matrix. create_ltv_heatmap calc pr dr = (Inr ltv_matrix, calc)"
proof -
  obtain rows where "heatmap_sweep (total_debt calc) (linspace (fst dr) (snd dr) 15)
               (linspace (fst pr) (snd pr) 20) calc
          = (Inr rows, calc\<lparr>total_debt := num_mul (total_debt calc) (Np (Finite (snd dr)))\<rparr>)"
    using sweep_state by blast
  then show ?thesis
    by (simp add: create_ltv_heatmap_def Let_def)
qed

text \<open>
  C8, as the code has it. Each method of the calculator (BTC value, LTV ratio, collateral
  coverage, liquidation price, margin of safety, interest coverage, stress test) returns
  the calculator with every field as it was. The heatmap sweep does not build a state
  per cell: it overwrites \<^verbatim>\<open>total_debt\<close> of the calculator it was given, which after the
  loops holds the original debt times the last multiplier, and then writes the original
  debt back. No cell of the sweep raises, its debt being a numpy float64, so the reset
  is reached and the calculator after \<^verbatim>\<open>create_ltv_heatmap\<close> equals the one before.
\<close>

theorem calls_leave_calculator_unchanged:
  "snd (calculate_btc_value p c) = c \<and>
   snd (calculate_ltv_ratio p c) = c \<and>
   snd (calculate_collateral_coverage p c) = c \<and>
   snd (calculate_liquidation_price t c) = c \<and>
   snd (calculate_margin_of_safety t c) = c \<and>
   snd (calculate_interest_coverage income c) = c \<and>
   snd (stress_test_scenarios c) = c \<and>
   snd (heatmap_sweep (total_debt c) (linspace (fst dr) (snd dr) 15)
          (linspace (fst pr) (snd pr) 20) c)
     = c\<lparr>total_debt := num_mul (total_debt c) (Np (Finite (snd dr)))\<rparr> \<and>
   snd (create_ltv_heatmap c pr dr) = c \<and>
   (\<exists>ltv_matrix. fst (create_ltv_heatmap c pr dr) = Inr ltv_matrix)"
proof (intro conjI)
  show "snd (calculate_btc_value p c) = c"
    by (simp add: calculate_btc_value_def)
  show "snd (calculate_ltv_ratio p c) = c"
    by (rule snd_calculate_ltv_ratio)
  show "snd (calculate_collateral_coverage p c) = c"
    by (rule snd_calculate_collateral_coverage)
  show "snd (calculate_liquidation_price t c) = c"
    by (simp add: calculate_liquidation_price_def)
  show "snd (calculate_margin_of_safety t c) = c"
    by (rule snd_calculate_margin_of_safety)
  show "snd (calculate_interest_coverage income c) = c"
    by (simp add: calculate_interest_coverage_def)
  show "snd (stress_test_scenarios c) = c"
    unfolding stress_test_scenarios_def Let_def by (rule snd_stress_rows)
  show "snd (heatmap_sweep (total_debt c) (linspace (fst dr) (snd dr) 15)
          (linspace (fst pr) (snd pr) 20) c)
     = c\<lparr>total_debt := num_mul (total_debt c) (Np (Finite (snd dr)))\<rparr>"
    using sweep_state[of c "fst dr" "snd dr" "fst pr" "snd pr"] by auto
  show "snd (create_ltv_heatmap c pr dr) = c"
    using create_ltv_heatmap_returns[of c pr dr] by auto
  show "\<exists>ltv_matrix. fst (create_ltv_heatmap c pr dr) = Inr ltv_matrix"
    using create_ltv_heatmap_returns[of c pr dr] by auto
qed

text \<open>
  C8 as stated fails: sweeping the example calculator over the multipliers 1 to 2 leaves
  the shared calculator, before the reset, with twice its debt.
\<close>

theorem heatmap_mutates_shared_state_counterexample:
  "total_debt scenario_state = py 8214000000 \<and>
   total_debt (snd (heatmap_sweep (total_debt scenario_state) (linspace 1 2 15)
                      (linspace 50000 150000 20) scenario_state)) = Np (Finite 16428000000)"
  using sweep_state[of scenario_state 1 2 50000 150000]
  by (auto simp: scenario_defs num_defs)

section \<open>Debt metrics: results\<close>

lemma dtype_of_column:
  "dtype_of (map f df) = (if list_ex (\<lambda>r. f r \<noteq> None) df then Float64 else Object)"
  by (simp add: dtype_of_def list_ex_iff)

lemma nan_sum_absent: "\<not> list_ex (\<lambda>r. f r \<noteq> None) df \<Longrightarrow> sum_list (map nan_to_zero (map f df)) = 0"
  by (induction df) (simp_all)

lemma coupon_numerator:
  "sum_list (map nan_to_zero (map (\<lambda>(x, y). nan_mul x y) (zip (map Coupon df) (map Notional df)))) =
     sum_list (map (\<lambda>r. the (Coupon r) * the (Notional r)) (filter both_present df))"
proof (induction df)
  case Nil
  show ?case by simp
next
  case (Cons r df)
  then show ?case
    by (cases "Coupon r"; cases "Notional r") (simp_all add: both_present_def)
qed

lemma notional_denominator:
  "sum_list (map nan_to_zero (map Notional df)) =
     sum_list (map (\<lambda>r. the (Notional r)) (filter notional_present df))"
proof (induction df)
  case Nil
  show ?case by simp
next
  case (Cons r df)
  then show ?case
    by (cases "Notional r") (simp_all add: notional_present_def)
qed

lemma sum_Notional_kind:
  "series_sum (column Notional df) =
     (if list_ex notional_present df
      then Np (Finite (sum_list (map (\<lambda>r. the (Notional r)) (filter notional_present df))))
      else Py (Finite 0))"
proof (cases "list_ex notional_present df")
  case True
  then show ?thesis
    by (simp add: series_sum_def column_def dtype_of_column notional_denominator
        notional_present_def[abs_def] del: map_map)
next
  case False
  then have "sum_list (map nan_to_zero (map Notional df)) = 0"
    using nan_sum_absent[of Notional df] by (simp add: notional_present_def[abs_def])
  then show ?thesis
    using False
    by (simp add: series_sum_def column_def dtype_of_column notional_present_def[abs_def])
qed

lemma fval_sum_product:
  "fval (series_sum (series_mul (column Coupon df) (column Notional df))) =
     Finite (sum_list (map (\<lambda>r. the (Coupon r) * the (Notional r)) (filter both_present df)))"
  by (simp add: series_sum_def series_mul_def column_def coupon_numerator del: map_map
      split: dtype.splits)

lemma product_kind_absent:
  "\<not> list_ex notional_present df \<Longrightarrow>
   \<not> is_np (series_sum (series_mul (column f df) (column Notional df)))"
  by (simp add: series_sum_def series_mul_def column_def dtype_of_column
      notional_present_def[abs_def])

text \<open>
  C1, as the code has it. The numerator of \<^verbatim>\<open>weighted_avg_coupon\<close> is the sum of
  coupon * notional over the records that have both; the denominator is the sum of the
  notionals over every record that has a notional, with or without a coupon. When no
  record has a notional (no rows, or every notional absent) the division is one of
  Python ints and raises ZeroDivisionError. When some record has a notional, the result
  is the quotient if the denominator is not zero, and otherwise no error is raised: the
  result is NaN for a zero numerator and an infinity for another.
\<close>

theorem weighted_avg_coupon_value:
  "map_sum id weighted_avg_coupon (calculate_debt_metrics df) =
     (let num = sum_list (map (\<lambda>r. the (Coupon r) * the (Notional r))
                            (filter both_present df));
          den = sum_list (map (\<lambda>r. the (Notional r)) (filter notional_present df))
      in if \<not> list_ex notional_present df then Inl ZeroDivisionError
         else if den \<noteq> 0 then Inr (Np (Finite (num / den)))
         else if num = 0 then Inr (Np NaN)
         else if 0 < num then Inr (Np PosInf) else Inr (Np NegInf))"
proof (cases "list_ex notional_present df")
  case False
  have "\<not> is_np (series_sum (series_mul (column Coupon df) (column Notional df)))"
    using False by (rule product_kind_absent)
  then show ?thesis
    using False
    by (simp add: calculate_debt_metrics_def sum_Notional_kind num_truediv_def Let_def)
next
  case True
  let ?n = "series_sum (series_mul (column Coupon df) (column Notional df))"
  let ?c = "series_sum (series_mul (column Conversion_Price df) (column Notional df))"
  let ?den = "sum_list (map (\<lambda>r. the (Notional r)) (filter notional_present df))"
  have d: "series_sum (column Notional df) = Np (Finite ?den)"
    using True by (simp add: sum_Notional_kind)
  have q1: "num_truediv ?n (Np (Finite ?den)) = Inr (Np (f_div (fval ?n) (Finite ?den)))"
    by (simp add: num_truediv_def result_of_def)
  have q2: "num_truediv ?c (Np (Finite ?den)) = Inr (Np (f_div (fval ?c) (Finite ?den)))"
    by (simp add: num_truediv_def result_of_def)
  show ?thesis
    using True
    by (simp add: calculate_debt_metrics_def d q1 q2 fval_sum_product Let_def signed_inf_def)
qed

text \<open>
  C1 as stated fails twice. A record with a notional and no coupon still counts in the
  denominator: for two bonds of notional 100, one without coupon and one with coupon 4,
  the code gives 2 where the specification's formula gives 4. And a zero denominator
  need not raise: for one bond of coupon 5 and notional 0 the code gives NaN.
\<close>

theorem weighted_avg_coupon_counterexample:
  "spec_weighted_avg_coupon
     [test_bond ''A'' None None (Some 100), test_bond ''B'' None (Some 4) (Some 100)]
     = Inr 4 \<and>
   map_sum id weighted_avg_coupon (calculate_debt_metrics
     [test_bond ''A'' None None (Some 100), test_bond ''B'' None (Some 4) (Some 100)])
     = Inr (Np (Finite 2)) \<and>
   spec_weighted_avg_coupon [test_bond ''C'' None (Some 5) (Some 0)] = Inl DivideByZero \<and>
   map_sum id weighted_avg_coupon (calculate_debt_metrics [test_bond ''C'' None (Some 5) (Some 0)])
     = Inr (Np NaN)"
  by (simp add: spec_weighted_avg_coupon_def calculate_debt_metrics_def test_bond_def
      both_present_def series_sum_def series_mul_def column_def dtype_of_def num_truediv_def
      result_of_def signed_inf_def)


section \<open>Maturity analyzer: results\<close>

lemma maturity_le_trans: "maturity_le a b \<Longrightarrow> maturity_le b c \<Longrightarrow> maturity_le a c"
  by (cases a; cases b; cases c) simp_all

lemma maturity_le_total: "maturity_le a b \<or> maturity_le b a"
  by (cases a; cases b) auto

lemma mset_insert_by_maturity: "mset (insert_by_maturity r xs) = add_mset r (mset xs)"
  by (induction xs) simp_all

lemma set_insert_by_maturity: "set (insert_by_maturity r xs) = insert r (set xs)"
  by (induction xs) auto

lemma sorted_insert_by_maturity:
  assumes "sorted_wrt (\<lambda>x y. maturity_le (Maturity x) (Maturity y)) xs"
  shows "sorted_wrt (\<lambda>x y. maturity_le (Maturity x) (Maturity y)) (insert_by_maturity r xs)"
  using assms
proof (induction xs)
  case Nil
  show ?case by simp
next
  case (Cons x xs)
  show ?case
  proof (cases "maturity_le (Maturity r) (Maturity x)")
    case True
    with Cons.prems show ?thesis
      by (auto intro: maturity_le_trans)
  next
    case False
    then have "maturity_le (Maturity x) (Maturity r)"
      using maturity_le_total by blast
    with False Cons show ?thesis
      by (auto simp: set_insert_by_maturity)
  qed
qed

lemma mset_sort_values_Maturity: "mset (sort_values_Maturity df) = mset df"
  by (induction df) (simp_all add: sort_values_Maturity_def mset_insert_by_maturity)

lemma sorted_sort_values_Maturity:
  "sorted_wrt (\<lambda>x y. maturity_le (Maturity x) (Maturity y)) (sort_values_Maturity df)"
  by (induction df) (simp_all add: sort_values_Maturity_def sorted_insert_by_maturity)

text \<open>A column in \<open>maturity_le\<close> order is its dates in ascending order, then its NaTs.\<close>

lemma sorted_maturities_split:
  "sorted_wrt maturity_le ms \<Longrightarrow>
   ms = map Some (sort (dates ms)) @ replicate (length (filter (\<lambda>m. m = None) ms)) None"
proof (induction ms)
  case Nil
  show ?case by (simp add: dates_def)
next
  case (Cons m ms)
  then have IH: "ms = map Some (sort (dates ms)) @
                      replicate (length (filter (\<lambda>m. m = None) ms)) None"
    and le: "\<forall>y\<in>set ms. maturity_le m y"
    by simp_all
  show ?case
  proof (cases m)
    case None
    have all_none: "\<forall>y\<in>set ms. y = None"
    proof
      fix y
      assume "y \<in> set ms"
      with le have "maturity_le None y"
        using None by simp
      then show "y = None"
        by (cases y) simp_all
    qed
    then have "filter (\<lambda>m. m \<noteq> None) ms = []" and "filter (\<lambda>m. m = None) ms = ms"
      by (simp_all add: filter_empty_conv filter_id_conv)
    moreover have "ms = replicate (length ms) None"
      using all_none by (simp add: replicate_length_same)
    ultimately show ?thesis
      using None by (simp add: dates_def)
  next
    case (Some t)
    have "\<forall>u\<in>set (dates ms). t \<le> u"
    proof
      fix u
      assume "u \<in> set (dates ms)"
      then have "Some u \<in> set ms"
        by (auto simp: dates_def)
      with le Some show "t \<le> u"
        by fastforce
    qed
    then have "\<forall>u\<in>set (sort (dates ms)). t \<le> u"
      by simp
    then have "insort t (sort (dates ms)) = t # sort (dates ms)"
      by (simp add: insort_is_Cons)
    then have "sort (dates (m # ms)) = t # sort (dates ms)"
      using Some by (simp add: dates_def)
    then show ?thesis
      using IH Some by (simp add: dates_def)
  qed
qed

lemma mset_dates: "mset xs = mset ys \<Longrightarrow> mset (dates xs) = mset (dates ys)"
  unfolding dates_def by (metis mset_filter mset_map)

lemma sort_dates_cong: "mset xs = mset ys \<Longrightarrow> sort (dates xs) = sort (dates ys)"
  by (metis mset_dates mset_sort properties_for_sort sorted_sort)

lemma count_NaT_cong:
  "mset xs = mset ys \<Longrightarrow>
   length (filter (\<lambda>m. m = None) xs) = length (filter (\<lambda>m. m = None) ys)"
  by (metis mset_filter size_mset)

lemma schedule_Maturity_column:
  "map sch_Maturity (get_maturity_schedule now (init_MaturityAnalyzer df)) =
     map Some (sort (dates (map Maturity df))) @
     replicate (length (filter (\<lambda>r. Maturity r = None) df)) None"
proof -
  let ?ms = "map Maturity (sort_values_Maturity df)"
  have s: "sorted_wrt maturity_le ?ms"
    using sorted_sort_values_Maturity[of df] by (simp add: sorted_wrt_map)
  have m: "mset ?ms = mset (map Maturity df)"
    using mset_sort_values_Maturity[of df] by (metis mset_map)
  have col: "map sch_Maturity (get_maturity_schedule now (init_MaturityAnalyzer df)) = ?ms"
    by (simp add: get_maturity_schedule_def init_MaturityAnalyzer_def comp_def)
  have "?ms = map Some (sort (dates ?ms)) @
              replicate (length (filter (\<lambda>m. m = None) ?ms)) None"
    using sorted_maturities_split[OF s] .
  also have "sort (dates ?ms) = sort (dates (map Maturity df))"
    using sort_dates_cong[OF m] .
  also have "length (filter (\<lambda>m. m = None) ?ms)
               = length (filter (\<lambda>m. m = None) (map Maturity df))"
    using count_NaT_cong[OF m] .
  also have "length (filter (\<lambda>m. m = None) (map Maturity df))
               = length (filter (\<lambda>r. Maturity r = None) df)"
    by (simp add: filter_map comp_def)
  finally show ?thesis
    using col by simp
qed

lemma schedule_rows:
  "mset (map (\<lambda>e. (sch_Name e, sch_Maturity e))
          (get_maturity_schedule now (init_MaturityAnalyzer df)))
     = mset (map (\<lambda>r. (Name r, Maturity r)) df)"
proof -
  have "mset (map (\<lambda>r. (Name r, Maturity r)) (sort_values_Maturity df))
          = mset (map (\<lambda>r. (Name r, Maturity r)) df)"
    using mset_sort_values_Maturity[of df] by (metis mset_map)
  then show ?thesis
    by (simp add: get_maturity_schedule_def init_MaturityAnalyzer_def comp_def)
qed

text \<open>
  C6, as the code has it. The schedule keeps every record of the portfolio: its rows,
  as (name, maturity) pairs, are those of the portfolio, each as often. Its Maturity
  column is the portfolio's maturity dates in ascending order followed by one NaT for
  each record without a maturity date: such records are placed last, not left out.
\<close>

theorem schedule_sorted_NaT_last:
  "map sch_Maturity (get_maturity_schedule now (init_MaturityAnalyzer df)) =
     map Some (sort (dates (map Maturity df))) @
     replicate (length (filter (\<lambda>r. Maturity r = None) df)) None \<and>
   mset (map (\<lambda>e. (sch_Name e, sch_Maturity e))
          (get_maturity_schedule now (init_MaturityAnalyzer df)))
     = mset (map (\<lambda>r. (Name r, Maturity r)) df)"
  using schedule_Maturity_column[of now df] schedule_rows[of now df] by (rule conjI)

text \<open>
  C6 as stated fails: of two bonds, the first without a maturity date, the schedule
  holds both, the one without a date last.
\<close>

theorem schedule_keeps_NaT_counterexample:
  "map (\<lambda>e. (sch_Name e, sch_Maturity e))
     (get_maturity_schedule 0 (init_MaturityAnalyzer
        [test_bond ''A'' None (Some 1) (Some 100), test_bond ''B'' (Some 5) (Some 2) (Some 50)]))
   = [(''B'', Some 5), (''A'', None)]"
  by (simp add: get_maturity_schedule_def init_MaturityAnalyzer_def sort_values_Maturity_def
      test_bond_def)















section \<open>Parsers: results\<close>

lemma strptime_mdY_error: "strptime_mdY s = Inl e \<Longrightarrow> e = ValueError"
  by (auto simp: strptime_mdY_def split: list.splits option.splits if_splits)

text \<open>A date cell never raises: text that is no date is recorded as absent.\<close>

lemma parse_date_never_raises: "\<exists>d. parse_date s = Inr d"
proof (cases "\<exists>t. s = Some t \<and> t \<noteq> [] \<and> t \<noteq> em_dash")
  case True
  then obtain t where t: "s = Some t" "t \<noteq> []" "t \<noteq> em_dash"
    by blast
  show ?thesis
  proof (cases "strptime_mdY t")
    case (Inl e)
    then have "e = ValueError"
      by (rule strptime_mdY_error)
    then show ?thesis
      using t Inl by (simp add: parse_date_def)
  next
    case (Inr d)
    then show ?thesis
      using t by (simp add: parse_date_def)
  qed
next
  case False
  then show ?thesis
    by (cases s) (auto simp: parse_date_def)
qed

text \<open>
  C4, where the code departs from it. A Price cell that is no number is a ValueError of
  \<^verbatim>\<open>parse_currency\<close>, nothing catches it, and \<^verbatim>\<open>parse_debt_data\<close> ends with that error
  on a table whose structure is sound. A Maturity text in another date format is
  recorded as absent by \<^verbatim>\<open>parse_date\<close>, which does catch the error.
\<close>

theorem malformed_currency_aborts_parse:
  "parse_currency (Some ''N/A'') = Inl ValueError \<and>
   parse_debt_data (Some (example_table ''9/15/2028'' ''N/A'')) = Inl ValueError \<and>
   parse_date (Some ''2028-09-15'') = Inr None"
  by code_simp

end
